theory Spec2Isabelle
  imports Complex_Main
begin

section \<open>Vectors and scene objects\<close>

text \<open>
  Embedding of the placement and tracking logic of \<^verbatim>\<open>src/js/ar-app.js\<close>.
  JavaScript numbers are taken as real numbers, so rounding of doubles is not part of
  the model. The module-level variables of the script form one record \<open>app\<close>; every
  event handler is a function from \<open>app\<close> to \<open>app\<close>.
\<close>

record vec3 =
  vx :: real
  vy :: real
  vz :: real

abbreviation Vector3 :: "real \<Rightarrow> real \<Rightarrow> real \<Rightarrow> vec3" where
  "Vector3 a b c \<equiv> \<lparr>vx = a, vy = b, vz = c\<rparr>"

definition distanceTo :: "vec3 \<Rightarrow> vec3 \<Rightarrow> real" where
  "distanceTo a b = sqrt ((vx a - vx b)\<^sup>2 + (vy a - vy b)\<^sup>2 + (vz a - vz b)\<^sup>2)"

definition vadd :: "vec3 \<Rightarrow> vec3 \<Rightarrow> vec3" where
  "vadd a b = Vector3 (vx a + vx b) (vy a + vy b) (vz a + vz b)"

definition multiplyScalar :: "vec3 \<Rightarrow> real \<Rightarrow> vec3" where
  "multiplyScalar a k = Vector3 (vx a * k) (vy a * k) (vz a * k)"

definition degToRad :: "real \<Rightarrow> real" where
  "degToRad degrees = degrees * (pi / 180)"

text \<open>A 4x4 matrix is the column-major array of its 16 entries, as Three.js stores it.\<close>

type_synonym matrix4 = "real list"

definition identity4 :: matrix4 where
  "identity4 = [1, 0, 0, 0,  0, 1, 0, 0,  0, 0, 1, 0,  0, 0, 0, 1]"

definition setFromMatrixPosition :: "matrix4 \<Rightarrow> vec3" where
  "setFromMatrixPosition m = Vector3 (m ! 12) (m ! 13) (m ! 14)"

text \<open>
  A \<^verbatim>\<open>THREE.Group\<close>, reduced to the fields the script reads or writes. \<open>reticleLabel\<close> is
  the visibility of the child named \<^verbatim>\<open>reticleLabel\<close>, \<open>None\<close> when the group has no such
  child (\<^verbatim>\<open>getObjectByName\<close> then returns \<^verbatim>\<open>undefined\<close>).
\<close>

record object3d =
  visible :: bool
  position :: vec3
  rotation_y :: real
  matrix :: matrix4
  reticleLabel :: "bool option"

definition newGroup :: object3d where
  "newGroup = \<lparr>visible = True, position = Vector3 0 0 0, rotation_y = 0,
               matrix = identity4, reticleLabel = None\<rparr>"

definition createARReticle :: object3d where
  "createARReticle = newGroup\<lparr>visible := False\<rparr>"

definition createFallbackReticle :: object3d where
  "createFallbackReticle =
     newGroup\<lparr>reticleLabel := Some True, position := Vector3 0 0 (- 3)\<rparr>"

text \<open>
  The camera pose is written by Three.js, the pointer rig and the orientation sensor, none
  of which the placement logic controls. Each handler that reads the camera therefore takes
  the pose it reads as an argument: \<open>quaternion\<close> is the action of
  \<^verbatim>\<open>camera.quaternion\<close> on a vector (\<^verbatim>\<open>applyQuaternion\<close>), \<open>matrixWorld\<close> the action of
  \<^verbatim>\<open>camera.matrixWorld\<close> on a point (\<^verbatim>\<open>applyMatrix4\<close>).
\<close>

record camera =
  cam_position :: vec3
  quaternion :: "vec3 \<Rightarrow> vec3"
  matrixWorld :: "vec3 \<Rightarrow> vec3"

section \<open>Application state\<close>

datatype request = CameraStream | OrientationPermission | TrackedSession

datatype background = PageDefault | Transparent | SolidColor

record app =
  xrSession :: bool
  hitTestSource :: bool
  reticle :: "object3d option"
  fallbackReticle :: "object3d option"
  pipePlaced :: bool
  pipeGroup :: "object3d option"
  excavationGroup :: "object3d option"
  excavationState :: nat
  fallbackMode :: bool
  cameraVideo :: bool
  showPipeInfo :: bool
  useDeviceOrientation :: bool
  wasDragged :: bool
  isDragging :: bool
  isPanning :: bool
  loaded3DModel :: bool
  placedMarkers :: "vec3 list"
  groundGrid :: bool
  placedPosition :: "vec3 option"
  fallbackAnimateRunning :: bool
  fallbackControlsReady :: bool
  xr_enabled :: bool
  animationLoop :: bool
  camera_fov :: real
  canvas_background :: background
  btnPlace_disabled :: bool
  rotationSlider :: real
  distanceSlider :: real
  requests :: "request list"

text \<open>
  The state when \<^verbatim>\<open>init\<close> has built scene, camera and renderer. \<open>requests\<close> is the log of
  acquisition calls made to the platform (\<^verbatim>\<open>getUserMedia\<close>,
  \<^verbatim>\<open>DeviceOrientationEvent.requestPermission\<close>, \<^verbatim>\<open>navigator.xr.requestSession\<close>), newest
  first.
\<close>

definition init :: app where
  "init = \<lparr>xrSession = False, hitTestSource = False, reticle = None, fallbackReticle = None,
     pipePlaced = False, pipeGroup = None, excavationGroup = None, excavationState = 0,
     fallbackMode = False, cameraVideo = False, showPipeInfo = True,
     useDeviceOrientation = False, wasDragged = False, isDragging = False, isPanning = False,
     loaded3DModel = False, placedMarkers = [], groundGrid = False, placedPosition = None,
     fallbackAnimateRunning = False, fallbackControlsReady = False, xr_enabled = False,
     animationLoop = False, camera_fov = 70, canvas_background = PageDefault,
     btnPlace_disabled = False, rotationSlider = 0, distanceSlider = 0, requests = []\<rparr>"

section \<open>Camera background\<close>

text \<open>
  \<^verbatim>\<open>startCameraBackground\<close>. The argument is what the platform answers: the stream is
  refused, or it is granted and \<^verbatim>\<open>video.play()\<close> then succeeds or fails. The routine is
  taken as running to completion, with no other handler in between its awaits.
\<close>

datatype cam_outcome = CamDenied | CamGranted bool

definition startCameraBackground :: "cam_outcome \<Rightarrow> app \<Rightarrow> app" where
  "startCameraBackground outcome s =
     (if cameraVideo s then s
      else let s1 = s\<lparr>requests := CameraStream # requests s\<rparr> in
        (case outcome of
           CamDenied \<Rightarrow> s1\<lparr>canvas_background := SolidColor\<rparr>
         | CamGranted played \<Rightarrow>
             (if played then s1\<lparr>cameraVideo := True, canvas_background := Transparent\<rparr>
              else s1\<lparr>cameraVideo := True, canvas_background := SolidColor\<rparr>)))"

section \<open>Placement\<close>

text \<open>\<^verbatim>\<open>placePipe(position)\<close>: creates the placed asset and the placement record.\<close>

definition placePipe :: "vec3 \<Rightarrow> app \<Rightarrow> app" where
  "placePipe pos s =
     s\<lparr>pipeGroup := Some (newGroup\<lparr>position := pos\<rparr>),
       excavationGroup := Some (newGroup\<lparr>position := pos, visible := (excavationState s > 0)\<rparr>),
       placedMarkers := placedMarkers s @ [pos\<lparr>vy := vy pos + 0.001\<rparr>],
       fallbackReticle :=
         map_option (\<lambda>f. case reticleLabel f of None \<Rightarrow> f
                          | Some _ \<Rightarrow> f\<lparr>reticleLabel := Some False\<rparr>) (fallbackReticle s),
       reticle := map_option (\<lambda>r. r\<lparr>visible := False\<rparr>) (reticle s),
       pipePlaced := True,
       placedPosition := Some pos,
       btnPlace_disabled := True,
       distanceSlider := 0\<rparr>"

definition autoPlaceAtDefaultPosition :: "app \<Rightarrow> app" where
  "autoPlaceAtDefaultPosition s =
     (if pipePlaced s then s
      else placePipe (case fallbackReticle s of Some f \<Rightarrow> position f
                      | None \<Rightarrow> Vector3 0 0 (- 3)) s)"

text \<open>The \<^verbatim>\<open>select\<close> listener of the tracked session.\<close>

definition onARSelect :: "camera \<Rightarrow> app \<Rightarrow> app" where
  "onARSelect cam s =
     (if pipePlaced s then s
      else case reticle s of
             Some r \<Rightarrow>
               if visible r then placePipe (setFromMatrixPosition (matrix r)) s
               else placePipe (matrixWorld cam (Vector3 0 (- 0.5) (- 1.5))) s
           | None \<Rightarrow> placePipe (matrixWorld cam (Vector3 0 (- 0.5) (- 1.5))) s)"

text \<open>The click listeners of the place button and of the canvas.\<close>

definition btnPlace_click :: "app \<Rightarrow> app" where
  "btnPlace_click s =
     (if pipePlaced s then s
      else case fallbackReticle s of
             Some f \<Rightarrow> if fallbackMode s then placePipe (position f) s else s
           | None \<Rightarrow> s)"

definition canvas_click :: "app \<Rightarrow> app" where
  "canvas_click s =
     (if \<not> fallbackMode s \<or> pipePlaced s then s
      else if \<not> useDeviceOrientation s \<and> wasDragged s then s
      else case fallbackReticle s of
             Some f \<Rightarrow> placePipe (position f) s
           | None \<Rightarrow> s)"

text \<open>The click listener of the reset button.\<close>

definition btnReset_click :: "app \<Rightarrow> app" where
  "btnReset_click s =
     s\<lparr>pipeGroup := None,
       excavationGroup := None,
       placedMarkers := [],
       pipePlaced := False,
       placedPosition := None,
       excavationState := 0,
       showPipeInfo := True,
       btnPlace_disabled := False,
       rotationSlider := 0,
       distanceSlider := 0,
       camera_fov := 70,
       fallbackReticle := Some createFallbackReticle\<rparr>"

section \<open>Sliders\<close>

definition rotationSlider_input :: "real \<Rightarrow> app \<Rightarrow> app" where
  "rotationSlider_input angle s =
     s\<lparr>rotationSlider := angle,
       pipeGroup := map_option (\<lambda>g. g\<lparr>rotation_y := degToRad angle\<rparr>) (pipeGroup s),
       excavationGroup :=
         map_option (\<lambda>g. g\<lparr>rotation_y := degToRad angle\<rparr>) (excavationGroup s)\<rparr>"

definition distanceSlider_input :: "real \<Rightarrow> app \<Rightarrow> app" where
  "distanceSlider_input v s =
     (let dist = v * 0.001; s1 = s\<lparr>distanceSlider := v\<rparr> in
      case (pipeGroup s1, placedPosition s1) of
        (Some g, Some placed) \<Rightarrow>
          s1\<lparr>pipeGroup := Some (g\<lparr>position := (position g)\<lparr>vz := vz placed - dist\<rparr>\<rparr>),
             excavationGroup :=
               map_option (\<lambda>e. e\<lparr>position := (position e)\<lparr>vz := vz placed - dist\<rparr>\<rparr>)
                 (excavationGroup s1)\<rparr>
      | _ \<Rightarrow> s1)"

section \<open>Frames\<close>

text \<open>
  \<^verbatim>\<open>updateFallbackReticle\<close>: the forward ray of the camera meets the ground plane
  \<open>y = 0\<close>. The routine is only called with a fallback reticle present.
\<close>

definition updateFallbackReticle :: "camera \<Rightarrow> app \<Rightarrow> app" where
  "updateFallbackReticle cam s =
     (case fallbackReticle s of
        None \<Rightarrow> s
      | Some f \<Rightarrow>
          let dir = quaternion cam (Vector3 0 0 (- 1)) in
          if vy dir < - 0.01 then
            let t = - vy (cam_position cam) / vy dir;
                groundPoint = Vector3 (vx (cam_position cam) + vx dir * t) 0
                                      (vz (cam_position cam) + vz dir * t);
                dist = distanceTo groundPoint (cam_position cam)
            in if dist < 30 then s\<lparr>fallbackReticle := Some (f\<lparr>position := groundPoint\<rparr>)\<rparr>
               else s
          else
            s\<lparr>fallbackReticle := Some (f\<lparr>position :=
                 Vector3 (vx (cam_position cam) + vx dir * 3) 0
                         (vz (cam_position cam) + vz dir * 3)\<rparr>)\<rparr>)"

text \<open>
  One turn of the fallback render loop \<^verbatim>\<open>animate\<close>; \<open>cam\<close> is the camera after
  \<^verbatim>\<open>updateCameraFromOrientation\<close>, when that ran.
\<close>

definition animate :: "camera \<Rightarrow> app \<Rightarrow> app" where
  "animate cam s =
     (if (case fallbackReticle s of Some f \<Rightarrow> visible f | None \<Rightarrow> False) \<and> \<not> pipePlaced s
      then updateFallbackReticle cam s else s)"

text \<open>
  \<^verbatim>\<open>onXRFrame(timestamp, frame)\<close>: the frame is absent or carries the hit-test results,
  each with the pose \<^verbatim>\<open>hit.getPose(xrRefSpace)\<close> (\<open>None\<close> for \<^verbatim>\<open>null\<close>) as its matrix.
\<close>

type_synonym xr_frame = "matrix4 option list"

definition onXRFrame :: "xr_frame option \<Rightarrow> app \<Rightarrow> app" where
  "onXRFrame frame s =
     (case frame of
        None \<Rightarrow> s
      | Some hitTestResults \<Rightarrow>
          if hitTestSource s \<and> \<not> pipePlaced s then
            (case reticle s of
               None \<Rightarrow> s
             | Some r \<Rightarrow>
                 (case hitTestResults of
                    [] \<Rightarrow> s\<lparr>reticle := Some (r\<lparr>visible := False\<rparr>)\<rparr>
                  | hit # _ \<Rightarrow>
                      (case hit of
                         None \<Rightarrow> s
                       | Some pose \<Rightarrow>
                           s\<lparr>reticle := Some (r\<lparr>visible := True, matrix := pose\<rparr>),
                             btnPlace_disabled := False\<rparr>)))
          else s)"

section \<open>Fallback mode\<close>

text \<open>
  \<^verbatim>\<open>startFallbackMode\<close>. \<^verbatim>\<open>setupFallbackControls\<close> and \<^verbatim>\<open>tryDeviceOrientation\<close> only
  register listeners (and move the camera); the listeners are the pointer and orientation
  handlers below. The render loop is started at most once, and its first turn runs inside
  this routine, before the check of \<open>pipePlaced\<close>. The routine is taken as running to
  completion, with no other handler during its await of the camera.
\<close>

definition startFallbackMode :: "cam_outcome \<Rightarrow> camera \<Rightarrow> app \<Rightarrow> app" where
  "startFallbackMode outcome cam s =
     (if fallbackMode s \<and> fallbackAnimateRunning s then s
      else
        let s1 = s\<lparr>fallbackMode := True, xr_enabled := False\<rparr>;
            s2 = startCameraBackground outcome s1;
            s3 = s2\<lparr>groundGrid := True, fallbackReticle := Some createFallbackReticle\<rparr>;
            s4 = (if \<not> fallbackControlsReady s3
                  then s3\<lparr>fallbackControlsReady := True\<rparr> else s3);
            s5 = (if \<not> fallbackAnimateRunning s4
                  then animate cam (s4\<lparr>fallbackAnimateRunning := True\<rparr>) else s4)
        in if pipePlaced s5
           then s5\<lparr>fallbackReticle := map_option (\<lambda>r. r\<lparr>visible := False\<rparr>) (fallbackReticle s5),
                   btnPlace_disabled := True\<rparr>
           else s5\<lparr>btnPlace_disabled := False\<rparr>)"


section \<open>Tracked session\<close>

text \<open>
  \<^verbatim>\<open>startARSession\<close>. The platform rejects the session request, or grants it and a later
  setup call throws, or the session starts, with or without a hit-test source. In the two
  failing cases the \<^verbatim>\<open>catch\<close> block arms a timer that calls \<^verbatim>\<open>startFallbackMode\<close>.
\<close>

datatype ar_outcome = RequestRejected | SetupFailed | Started bool

definition startARSession :: "ar_outcome \<Rightarrow> app \<Rightarrow> app" where
  "startARSession outcome s =
     (let s1 = s\<lparr>requests := TrackedSession # requests s\<rparr> in
      case outcome of
        RequestRejected \<Rightarrow> s1\<lparr>xr_enabled := False\<rparr>
      | SetupFailed \<Rightarrow> s1\<lparr>xrSession := True, xr_enabled := False\<rparr>
      | Started hit \<Rightarrow>
          s1\<lparr>xrSession := True,
             hitTestSource := (if hit then True else hitTestSource s1),
             reticle := Some createARReticle,
             btnPlace_disabled := False,
             animationLoop := True\<rparr>)"

text \<open>The \<^verbatim>\<open>end\<close> listener of the tracked session: the hand-off to fallback mode.\<close>

definition xrSession_end :: "cam_outcome \<Rightarrow> camera \<Rightarrow> app \<Rightarrow> app" where
  "xrSession_end outcome cam s =
     (let s1 = s\<lparr>xrSession := False, hitTestSource := False, xr_enabled := False,
                 animationLoop := False\<rparr>
      in if \<not> fallbackMode s1 then startFallbackMode outcome cam s1 else s1)"

section \<open>Model and data loading\<close>

text \<open>
  \<^verbatim>\<open>setAR3DModel\<close> and \<^verbatim>\<open>loadARPipeData\<close>, as far as they touch the placement: a placed
  asset is rebuilt at its current pose, which becomes the new base position.
\<close>

definition setAR3DModel :: "app \<Rightarrow> app" where
  "setAR3DModel s =
     (let s1 = s\<lparr>loaded3DModel := True\<rparr> in
      case pipeGroup s1 of
        Some g \<Rightarrow>
          if pipePlaced s1 then
            s1\<lparr>pipeGroup := Some (newGroup\<lparr>position := position g, rotation_y := rotation_y g\<rparr>),
               excavationGroup :=
                 Some (newGroup\<lparr>position := position g, rotation_y := rotation_y g,
                                 visible := (excavationState s1 > 0)\<rparr>),
               placedPosition := Some (position g),
               distanceSlider := 0\<rparr>
          else autoPlaceAtDefaultPosition s1
      | None \<Rightarrow> autoPlaceAtDefaultPosition s1)"

definition loadARPipeData :: "app \<Rightarrow> app" where
  "loadARPipeData s =
     (let s1 = s\<lparr>loaded3DModel := False\<rparr> in
      case pipeGroup s1 of
        Some g \<Rightarrow>
          if pipePlaced s1 then
            s1\<lparr>pipeGroup := Some (newGroup\<lparr>position := position g, rotation_y := rotation_y g\<rparr>),
               placedPosition := Some (position g),
               distanceSlider := 0\<rparr>
          else autoPlaceAtDefaultPosition s1
      | None \<Rightarrow> autoPlaceAtDefaultPosition s1)"

section \<open>Other controls\<close>

definition btnExcavation_click :: "app \<Rightarrow> app" where
  "btnExcavation_click s =
     (let st = (excavationState s + 1) mod 3 in
      s\<lparr>excavationState := st,
        excavationGroup := map_option (\<lambda>e. e\<lparr>visible := (st \<noteq> 0)\<rparr>) (excavationGroup s)\<rparr>)"

definition rebuildExcavation :: "app \<Rightarrow> app" where
  "rebuildExcavation s =
     s\<lparr>excavationGroup :=
         map_option (\<lambda>e. newGroup\<lparr>position := position e, rotation_y := rotation_y e,
                                  visible := (excavationState s > 0)\<rparr>) (excavationGroup s)\<rparr>"

definition btnPipeInfo_click :: "app \<Rightarrow> app" where
  "btnPipeInfo_click s = s\<lparr>showPipeInfo := (\<not> showPipeInfo s)\<rparr>"

text \<open>
  The pointer listeners of \<^verbatim>\<open>setupFallbackControls\<close>, as far as they decide whether a
  click counts as a drag. They exist once the fallback controls are set up.
  \<open>rightButton\<close> is \<^verbatim>\<open>e.button === 2\<close>; \<open>beyond\<close> says that the pointer has moved more
  than \<^verbatim>\<open>DRAG_THRESHOLD\<close> from where it went down.
\<close>

definition pointerdown :: "bool \<Rightarrow> app \<Rightarrow> app" where
  "pointerdown rightButton s =
     (if \<not> fallbackControlsReady s \<or> useDeviceOrientation s then s
      else if rightButton then s\<lparr>isPanning := True\<rparr>
      else s\<lparr>isDragging := True, wasDragged := False\<rparr>)"

definition pointermove :: "bool \<Rightarrow> app \<Rightarrow> app" where
  "pointermove beyond s =
     (if \<not> fallbackControlsReady s \<or> useDeviceOrientation s then s
      else if isPanning s then s
      else if \<not> isDragging s then s
      else if beyond then s\<lparr>wasDragged := True\<rparr> else s)"

definition pointerup :: "app \<Rightarrow> app" where
  "pointerup s =
     (if \<not> fallbackControlsReady s then s else s\<lparr>isDragging := False, isPanning := False\<rparr>)"

text \<open>
  \<^verbatim>\<open>activateDeviceOrientation\<close>, and the click listener of the gyro permission button with
  the platform's answer.
\<close>

definition activateDeviceOrientation :: "app \<Rightarrow> app" where
  "activateDeviceOrientation s = s\<lparr>useDeviceOrientation := True\<rparr>"

definition btnGyroPermission_click :: "bool \<Rightarrow> app \<Rightarrow> app" where
  "btnGyroPermission_click granted s =
     (let s1 = s\<lparr>requests := OrientationPermission # requests s\<rparr> in
      if granted then activateDeviceOrientation s1 else s1)"

section \<open>Events and reachable states\<close>

datatype event =
    StartARSession ar_outcome
  | XrSessionEnd cam_outcome camera
  | XrFrame "xr_frame option"
  | ARSelect camera
  | StartFallbackMode cam_outcome camera
  | Animate camera
  | PlaceClick
  | CanvasClick
  | ResetClick
  | RotationInput real
  | DistanceInput real
  | ModelLoaded
  | PipeDataLoaded
  | ExcavationClick
  | ExcavationSlider
  | PipeInfoClick
  | PointerDown bool
  | PointerMove bool
  | PointerUp
  | OrientationDetected
  | GyroPermissionClick bool

text \<open>
  The frame callbacks run only while their loop is installed. The events are not
  restricted otherwise, so the reachable states include every state the script can be in.
  The script starts in \<open>init\<close>, with \<^verbatim>\<open>renderer.xr.enabled\<close> set when the platform supports
  immersive AR and unset when it does not.
\<close>

fun handle :: "event \<Rightarrow> app \<Rightarrow> app" where
  "handle (StartARSession outcome) s = startARSession outcome s"
| "handle (XrSessionEnd outcome cam) s = xrSession_end outcome cam s"
| "handle (XrFrame frame) s = (if animationLoop s then onXRFrame frame s else s)"
| "handle (ARSelect cam) s = onARSelect cam s"
| "handle (StartFallbackMode outcome cam) s = startFallbackMode outcome cam s"
| "handle (Animate cam) s = (if fallbackAnimateRunning s then animate cam s else s)"
| "handle PlaceClick s = btnPlace_click s"
| "handle CanvasClick s = canvas_click s"
| "handle ResetClick s = btnReset_click s"
| "handle (RotationInput angle) s = rotationSlider_input angle s"
| "handle (DistanceInput v) s = distanceSlider_input v s"
| "handle ModelLoaded s = setAR3DModel s"
| "handle PipeDataLoaded s = loadARPipeData s"
| "handle ExcavationClick s = btnExcavation_click s"
| "handle ExcavationSlider s = rebuildExcavation s"
| "handle PipeInfoClick s = btnPipeInfo_click s"
| "handle (PointerDown rightButton) s = pointerdown rightButton s"
| "handle (PointerMove beyond) s = pointermove beyond s"
| "handle PointerUp s = pointerup s"
| "handle OrientationDetected s = activateDeviceOrientation s"
| "handle (GyroPermissionClick granted) s = btnGyroPermission_click granted s"

inductive reachable :: "app \<Rightarrow> bool" where
  reachable_init: "reachable init"
| reachable_init_xr: "reachable (init\<lparr>xr_enabled := True\<rparr>)"
| reachable_step: "reachable s \<Longrightarrow> reachable (handle e s)"

fun run :: "event list \<Rightarrow> app \<Rightarrow> app" where
  "run [] s = s"
| "run (e # es) s = run es (handle e s)"

section \<open>Observations\<close>

text \<open>
  What the renderer shows: a reticle is shown when it exists and is visible; the label of
  the fallback reticle is shown when the reticle is shown and the label is visible. The
  effective pose of the placed asset is the position and yaw of \<open>pipeGroup\<close>.
\<close>

definition reticle_shown :: "app \<Rightarrow> bool" where
  "reticle_shown s \<longleftrightarrow> map_option visible (reticle s) = Some True"

definition fallbackReticle_shown :: "app \<Rightarrow> bool" where
  "fallbackReticle_shown s \<longleftrightarrow> map_option visible (fallbackReticle s) = Some True"

definition label_shown :: "app \<Rightarrow> bool" where
  "label_shown s \<longleftrightarrow>
     map_option (\<lambda>f. visible f \<and> reticleLabel f = Some True) (fallbackReticle s) = Some True"

definition effectivePose :: "app \<Rightarrow> (vec3 \<times> real) option" where
  "effectivePose s = map_option (\<lambda>g. (position g, rotation_y g)) (pipeGroup s)"

text \<open>
  The invariant of the placement state: while a placement exists, the placed asset and the
  stored base position exist and agree in \<open>x\<close> and \<open>y\<close>, the tracked reticle is hidden
  and the label of the fallback reticle is not shown; while none exists, a fallback
  reticle that exists is visible.
\<close>

definition placement_inv :: "app \<Rightarrow> bool" where
  "placement_inv s \<longleftrightarrow>
     (pipePlaced s \<longrightarrow>
        pipeGroup s \<noteq> None \<and> placedPosition s \<noteq> None
        \<and> map_option (\<lambda>g. vx (position g)) (pipeGroup s) = map_option vx (placedPosition s)
        \<and> map_option (\<lambda>g. vy (position g)) (pipeGroup s) = map_option vy (placedPosition s)
        \<and> map_option visible (reticle s) \<noteq> Some True
        \<and> map_option (\<lambda>f. visible f \<and> reticleLabel f = Some True) (fallbackReticle s)
            \<noteq> Some True)
     \<and> (\<not> pipePlaced s \<longrightarrow> map_option visible (fallbackReticle s) \<noteq> Some False)"

text \<open>The height-free distance between two points, and the \<open>z\<close> of the placed asset.\<close>

definition horizontalDistance :: "vec3 \<Rightarrow> vec3 \<Rightarrow> real" where
  "horizontalDistance a b = sqrt ((vx a - vx b)\<^sup>2 + (vz a - vz b)\<^sup>2)"

definition placed_z :: "app \<Rightarrow> real option" where
  "placed_z s = map_option (\<lambda>g. vz (position g)) (pipeGroup s)"

text \<open>The frame callbacks, and the inputs that commit a placement.\<close>

fun is_frame :: "event \<Rightarrow> bool" where
  "is_frame (XrFrame frame) = True"
| "is_frame (Animate cam) = True"
| "is_frame e = False"

fun is_commit :: "event \<Rightarrow> bool" where
  "is_commit (ARSelect cam) = True"
| "is_commit PlaceClick = True"
| "is_commit CanvasClick = True"
| "is_commit e = False"

text \<open>
  The effective position as the specification words it, to be compared with what the
  sliders do: \<open>basePosition + forward(yawOffsetDeg) * (-forwardOffsetMm/1000)\<close>, where
  \<open>forward\<close> is the direction \<open>-Z\<close> turned about the vertical axis by the yaw, the way
  \<^verbatim>\<open>rotation.y\<close> turns the asset.
\<close>

definition spec_forward :: "real \<Rightarrow> vec3" where
  "spec_forward yawOffsetDeg =
     Vector3 (- sin (degToRad yawOffsetDeg)) 0 (- cos (degToRad yawOffsetDeg))"

definition spec_effectivePosition :: "vec3 \<Rightarrow> real \<Rightarrow> real \<Rightarrow> vec3" where
  "spec_effectivePosition basePosition yawOffsetDeg forwardOffsetMm =
     vadd basePosition (multiplyScalar (spec_forward yawOffsetDeg) (- forwardOffsetMm / 1000))"

section \<open>Example inputs\<close>

text \<open>
  A level camera at eye height, a surface pose one metre to the right and two metres
  ahead, and the state of a tracked session in which that pose was committed.
\<close>

definition camera_level :: camera where
  "camera_level = \<lparr>cam_position = Vector3 0 1.6 0, quaternion = (\<lambda>v. v),
                    matrixWorld = (\<lambda>v. vadd v (Vector3 0 1.6 0))\<rparr>"

definition pose_ahead :: matrix4 where
  "pose_ahead = [1, 0, 0, 0,  0, 1, 0, 0,  0, 0, 1, 0,  1, 0, - 2, 1]"

definition tracked_placed :: app where
  "tracked_placed =
     run [StartARSession (Started True), XrFrame (Some [Some pose_ahead]),
          ARSelect camera_level] init"

text \<open>
  A tracked session with hit testing in which the pose at the origin was committed, a
  tracked session without hit-test source, fallback mode just started with the camera
  refused, and fallback mode just started with the camera granted.
\<close>

definition origin_placed :: app where
  "origin_placed =
     run [StartARSession (Started True), XrFrame (Some [Some identity4]),
          ARSelect camera_level] init"

definition tracked_no_hit_test :: app where
  "tracked_no_hit_test = run [StartARSession (Started False)] init"

definition fallback_ready :: app where
  "fallback_ready = run [StartFallbackMode CamDenied camera_level] init"

definition camera_running :: app where
  "camera_running = run [StartFallbackMode (CamGranted True) camera_level] init"

text \<open>
  Cameras turned about the horizontal axis: pitched up with forward direction
  \<open>(0, 0.6, -0.8)\<close>, pitched down with \<open>(0, -0.8, -0.6)\<close>, and looking just below the
  horizon with \<open>(0, -51/1301, -1300/1301)\<close>; all at eye height.
\<close>

definition camera_pitched_up :: camera where
  "camera_pitched_up =
     \<lparr>cam_position = Vector3 0 1.6 0,
      quaternion = (\<lambda>v. Vector3 (vx v) (0.8 * vy v - 0.6 * vz v) (0.6 * vy v + 0.8 * vz v)),
      matrixWorld = (\<lambda>v. Vector3 (vx v) (0.8 * vy v - 0.6 * vz v + 1.6)
                                   (0.6 * vy v + 0.8 * vz v))\<rparr>"

definition camera_pitched_down :: camera where
  "camera_pitched_down =
     \<lparr>cam_position = Vector3 0 1.6 0,
      quaternion = (\<lambda>v. Vector3 (vx v) (0.6 * vy v + 0.8 * vz v) (0.6 * vz v - 0.8 * vy v)),
      matrixWorld = (\<lambda>v. Vector3 (vx v) (0.6 * vy v + 0.8 * vz v + 1.6)
                                   (0.6 * vz v - 0.8 * vy v))\<rparr>"

definition camera_near_horizon :: camera where
  "camera_near_horizon =
     \<lparr>cam_position = Vector3 0 1.6 0,
      quaternion = (\<lambda>v. Vector3 (vx v) (1300 / 1301 * vy v + 51 / 1301 * vz v)
                                   (1300 / 1301 * vz v - 51 / 1301 * vy v)),
      matrixWorld = (\<lambda>v. Vector3 (vx v) (1300 / 1301 * vy v + 51 / 1301 * vz v + 1.6)
                                   (1300 / 1301 * vz v - 51 / 1301 * vy v))\<rparr>"


section \<open>The invariant holds in every reachable state\<close>

lemma inv_init: "placement_inv init"
  by (simp add: placement_inv_def init_def)


lemma inv_placePipe [simp]: "placement_inv (placePipe pos s)"
  by (auto simp: placement_inv_def placePipe_def newGroup_def split: option.splits)

lemma inv_autoPlace [simp]: "placement_inv s \<Longrightarrow> placement_inv (autoPlaceAtDefaultPosition s)"
  by (simp add: autoPlaceAtDefaultPosition_def)

lemma inv_loaded3DModel [simp]: "placement_inv (s\<lparr>loaded3DModel := b\<rparr>) = placement_inv s"
  by (simp add: placement_inv_def)

lemma inv_startARSession: "placement_inv s \<Longrightarrow> placement_inv (startARSession outcome s)"
  by (cases outcome)
     (auto simp: placement_inv_def startARSession_def createARReticle_def newGroup_def Let_def
           split: option.splits if_splits)

lemma inv_btnReset: "placement_inv (btnReset_click s)"
  by (auto simp: placement_inv_def btnReset_click_def createFallbackReticle_def newGroup_def)

lemma inv_onXRFrame: "placement_inv s \<Longrightarrow> placement_inv (onXRFrame frame s)"
  by (auto simp: placement_inv_def onXRFrame_def split: option.splits list.splits if_splits)

lemma inv_onARSelect: "placement_inv s \<Longrightarrow> placement_inv (onARSelect cam s)"
  by (simp add: onARSelect_def split: option.splits)

lemma inv_btnPlace: "placement_inv s \<Longrightarrow> placement_inv (btnPlace_click s)"
  by (simp add: btnPlace_click_def split: option.splits)

lemma inv_canvas: "placement_inv s \<Longrightarrow> placement_inv (canvas_click s)"
  by (simp add: canvas_click_def split: option.splits)

lemma inv_updateFallbackReticle:
  "placement_inv s \<Longrightarrow> placement_inv (updateFallbackReticle cam s)"
  by (auto simp: placement_inv_def updateFallbackReticle_def Let_def
           split: option.splits if_splits)

lemma inv_animate: "placement_inv s \<Longrightarrow> placement_inv (animate cam s)"
  by (simp add: animate_def inv_updateFallbackReticle)

lemma inv_startCameraBackground:
  "placement_inv (startCameraBackground outcome s) = placement_inv s"
  by (cases outcome; cases "cameraVideo s")
     (simp_all add: placement_inv_def startCameraBackground_def Let_def)

lemma inv_rotation: "placement_inv s \<Longrightarrow> placement_inv (rotationSlider_input angle s)"
  by (auto simp: placement_inv_def rotationSlider_input_def split: option.splits if_splits)

lemma inv_distance: "placement_inv s \<Longrightarrow> placement_inv (distanceSlider_input v s)"
  by (auto simp: placement_inv_def distanceSlider_input_def Let_def
           split: option.splits if_splits)

lemma inv_setAR3DModel: "placement_inv s \<Longrightarrow> placement_inv (setAR3DModel s)"
  by (auto simp: setAR3DModel_def Let_def split: option.splits)
     (auto simp: placement_inv_def newGroup_def split: option.splits if_splits)

lemma inv_loadARPipeData: "placement_inv s \<Longrightarrow> placement_inv (loadARPipeData s)"
  by (auto simp: loadARPipeData_def Let_def split: option.splits)
     (auto simp: placement_inv_def newGroup_def split: option.splits if_splits)

lemma inv_misc:
  "placement_inv s \<Longrightarrow> placement_inv (btnExcavation_click s)"
  "placement_inv s \<Longrightarrow> placement_inv (rebuildExcavation s)"
  "placement_inv s \<Longrightarrow> placement_inv (btnPipeInfo_click s)"
  "placement_inv s \<Longrightarrow> placement_inv (pointerdown b s)"
  "placement_inv s \<Longrightarrow> placement_inv (pointermove b s)"
  "placement_inv s \<Longrightarrow> placement_inv (pointerup s)"
  "placement_inv s \<Longrightarrow> placement_inv (activateDeviceOrientation s)"
  "placement_inv s \<Longrightarrow> placement_inv (btnGyroPermission_click b s)"
  by (simp_all add: placement_inv_def btnExcavation_click_def rebuildExcavation_def
        btnPipeInfo_click_def pointerdown_def pointermove_def pointerup_def
        activateDeviceOrientation_def btnGyroPermission_click_def Let_def)


lemma startCameraBackground_fields [simp]:
  "pipePlaced (startCameraBackground outcome s) = pipePlaced s"
  "pipeGroup (startCameraBackground outcome s) = pipeGroup s"
  "placedPosition (startCameraBackground outcome s) = placedPosition s"
  "reticle (startCameraBackground outcome s) = reticle s"
  "fallbackReticle (startCameraBackground outcome s) = fallbackReticle s"
  "fallbackMode (startCameraBackground outcome s) = fallbackMode s"
  "fallbackAnimateRunning (startCameraBackground outcome s) = fallbackAnimateRunning s"
  "fallbackControlsReady (startCameraBackground outcome s) = fallbackControlsReady s"
  "xrSession (startCameraBackground outcome s) = xrSession s"
  by (cases outcome; simp add: startCameraBackground_def Let_def)+

lemma inv_startFallbackMode:
  "placement_inv s \<Longrightarrow> placement_inv (startFallbackMode outcome cam s)"
  by (auto simp: placement_inv_def startFallbackMode_def Let_def animate_def
        updateFallbackReticle_def createFallbackReticle_def newGroup_def
        split: option.splits if_splits)

lemma inv_xrSession_end:
  "placement_inv s \<Longrightarrow> placement_inv (xrSession_end outcome cam s)"
proof -
  assume "placement_inv s"
  then have "placement_inv (s\<lparr>xrSession := False, hitTestSource := False, xr_enabled := False,
                 animationLoop := False\<rparr>)"
    by (simp add: placement_inv_def)
  then show ?thesis
    by (simp add: xrSession_end_def Let_def inv_startFallbackMode)
qed

lemma inv_handle: "placement_inv s \<Longrightarrow> placement_inv (handle e s)"
  by (cases e)
     (simp_all add: inv_startARSession inv_xrSession_end inv_onXRFrame inv_onARSelect
        inv_startFallbackMode inv_animate inv_btnPlace inv_canvas inv_btnReset inv_rotation
        inv_distance inv_setAR3DModel inv_loadARPipeData inv_misc)

lemma inv_init_xr: "placement_inv (init\<lparr>xr_enabled := True\<rparr>)"
  by (simp add: placement_inv_def init_def)

lemma reachable_inv: "reachable s \<Longrightarrow> placement_inv s"
  by (induction rule: reachable.induct) (simp_all add: inv_init inv_init_xr inv_handle)

lemma reachable_run: "reachable s \<Longrightarrow> reachable (run es s)"
  by (induction es arbitrary: s) (simp_all add: reachable_step)

section \<open>Hand-off from the tracked to the fallback backend\<close>



section \<open>Facts about the example inputs\<close>

lemma reachable_origin_placed: "reachable origin_placed"
  unfolding origin_placed_def by (rule reachable_run [OF reachable_init])

lemma reachable_tracked_no_hit_test: "reachable tracked_no_hit_test"
  unfolding tracked_no_hit_test_def by (rule reachable_run [OF reachable_init])

lemma reachable_fallback_ready: "reachable fallback_ready"
  unfolding fallback_ready_def by (rule reachable_run [OF reachable_init])

lemma origin_placed_fields:
  "pipePlaced origin_placed"
  "placedPosition origin_placed = Some (Vector3 0 0 0)"
  "pipeGroup origin_placed = Some (newGroup\<lparr>position := Vector3 0 0 0\<rparr>)"
  "excavationGroup origin_placed = Some (newGroup\<lparr>position := Vector3 0 0 0, visible := False\<rparr>)"
  by (simp_all add: origin_placed_def init_def startARSession_def onXRFrame_def onARSelect_def
        placePipe_def createARReticle_def newGroup_def identity4_def
        setFromMatrixPosition_def Let_def)

lemma tracked_no_hit_test_fields:
  "\<not> pipePlaced tracked_no_hit_test"
  "reticle tracked_no_hit_test = Some createARReticle"
  "fallbackReticle tracked_no_hit_test = None"
  "placedPosition tracked_no_hit_test = None"
  "xrSession tracked_no_hit_test"
  by (simp_all add: tracked_no_hit_test_def init_def startARSession_def Let_def)

lemma fallback_ready_fields:
  "\<not> pipePlaced fallback_ready"
  "fallbackMode fallback_ready"
  "fallbackAnimateRunning fallback_ready"
  "\<not> useDeviceOrientation fallback_ready"
  "\<not> wasDragged fallback_ready"
  "fallbackReticle fallback_ready = Some createFallbackReticle"
  "reticle fallback_ready = None"
  by (simp_all add: fallback_ready_def init_def startFallbackMode_def
        startCameraBackground_def animate_def updateFallbackReticle_def camera_level_def
        createFallbackReticle_def newGroup_def Let_def)

section \<open>Forward offset and yaw\<close>

text \<open>
  Claim C2 fails on the code. With the asset placed at the origin, yaw 90 degrees and a
  forward offset of 1000 mm, the sliders put the asset at \<open>(0, 0, -1)\<close>: one metre along
  the world axis \<open>-Z\<close>. The formula of the specification gives \<open>(1, 0, 0)\<close>.
\<close>

theorem forward_offset_counterexample:
  "map_option position
     (pipeGroup (distanceSlider_input 1000 (rotationSlider_input 90 origin_placed)))
     = Some (Vector3 0 0 (- 1))
   \<and> spec_effectivePosition (Vector3 0 0 0) 90 1000 = Vector3 1 0 0
   \<and> Vector3 0 0 (- 1) \<noteq> Vector3 1 0 0"
  by (simp add: origin_placed_fields distanceSlider_input_def rotationSlider_input_def
        spec_effectivePosition_def spec_forward_def degToRad_def vadd_def multiplyScalar_def
        newGroup_def Let_def)

text \<open>
  Claim C2, amended. In every reachable state with a placement, after the yaw slider is
  set to \<open>yaw\<close> and the forward slider to \<open>mm\<close>, in either order, the placed asset is at
  \<open>base + (0, 0, -1) * (mm / 1000)\<close> with yaw \<open>degToRad yaw\<close>: the displacement runs along
  the fixed world axis \<open>-Z\<close>, whatever the yaw.
\<close>

theorem forward_offset_along_world_z:
  assumes "reachable s" and "pipePlaced s" and "placedPosition s = Some base"
  shows "effectivePose (distanceSlider_input mm (rotationSlider_input yaw s))
           = Some (vadd base (multiplyScalar (Vector3 0 0 (- 1)) (mm * 0.001)), degToRad yaw)
       \<and> effectivePose (rotationSlider_input yaw (distanceSlider_input mm s))
           = Some (vadd base (multiplyScalar (Vector3 0 0 (- 1)) (mm * 0.001)), degToRad yaw)"
proof -
  from assms(1) have "placement_inv s" by (rule reachable_inv)
  with assms(2,3) obtain g where g: "pipeGroup s = Some g"
    and xy: "vx (position g) = vx base" "vy (position g) = vy base"
    by (auto simp: placement_inv_def)
  have eq: "\<And>p z. p\<lparr>vz := z\<rparr> = Vector3 (vx p) (vy p) z" by simp
  show ?thesis
    using assms(3) g xy
    by (simp add: effectivePose_def distanceSlider_input_def rotationSlider_input_def
          Let_def vadd_def multiplyScalar_def)
qed

theorem forward_offset_along_world_z_witness:
  "reachable origin_placed \<and> pipePlaced origin_placed
   \<and> placedPosition origin_placed = Some (Vector3 0 0 0)
   \<and> effectivePose (distanceSlider_input 1000 (rotationSlider_input 90 origin_placed))
        = Some (Vector3 0 0 (- 1), pi / 2)"
  using forward_offset_along_world_z [OF reachable_origin_placed, of "Vector3 0 0 0" 1000 90]
    reachable_origin_placed
  by (simp add: origin_placed_fields vadd_def multiplyScalar_def degToRad_def)

section \<open>Commit without a candidate pose\<close>

text \<open>
  Claim C3 fails on the code. In a tracked session without hit-test source no reticle is
  shown and nothing is placed, yet the \<^verbatim>\<open>select\<close> input commits a placement, at the
  point 1.5 m ahead of and 0.5 m below the camera.
\<close>

theorem commit_without_candidate_counterexample:
  "\<not> pipePlaced tracked_no_hit_test
   \<and> \<not> reticle_shown tracked_no_hit_test
   \<and> \<not> fallbackReticle_shown tracked_no_hit_test
   \<and> pipePlaced (onARSelect camera_level tracked_no_hit_test)
   \<and> placedPosition (onARSelect camera_level tracked_no_hit_test)
        = Some (Vector3 0 1.1 (- 1.5))"
  by (simp add: tracked_no_hit_test_fields reticle_shown_def fallbackReticle_shown_def
        onARSelect_def placePipe_def createARReticle_def newGroup_def camera_level_def vadd_def)

text \<open>
  Claim C3, amended. In every reachable state where no reticle is shown and nothing is
  placed, the place button and the canvas tap are ignored and leave the state unchanged;
  the \<^verbatim>\<open>select\<close> input of the tracked session is not ignored: it commits a placement at
  the image of the camera-space point \<open>(0, -0.5, -1.5)\<close>.
\<close>

theorem commit_without_candidate:
  assumes "reachable s" and "\<not> pipePlaced s"
    and "\<not> reticle_shown s" and "\<not> fallbackReticle_shown s"
  shows "btnPlace_click s = s
       \<and> canvas_click s = s
       \<and> onARSelect cam s = placePipe (matrixWorld cam (Vector3 0 (- 0.5) (- 1.5))) s
       \<and> pipePlaced (onARSelect cam s)
       \<and> placedPosition (onARSelect cam s) = Some (matrixWorld cam (Vector3 0 (- 0.5) (- 1.5)))"
proof -
  from assms(1) have "placement_inv s" by (rule reachable_inv)
  with assms(2,4) have none: "fallbackReticle s = None"
    by (cases "fallbackReticle s") (auto simp: placement_inv_def fallbackReticle_shown_def)
  have sel: "onARSelect cam s = placePipe (matrixWorld cam (Vector3 0 (- 0.5) (- 1.5))) s"
    using assms(2,3) by (auto simp: onARSelect_def reticle_shown_def split: option.splits)
  show ?thesis
    using assms(2) none
    by (simp add: sel btnPlace_click_def canvas_click_def) (simp add: placePipe_def)
qed

theorem commit_without_candidate_witness:
  "reachable tracked_no_hit_test \<and> \<not> pipePlaced tracked_no_hit_test
   \<and> \<not> reticle_shown tracked_no_hit_test \<and> \<not> fallbackReticle_shown tracked_no_hit_test
   \<and> btnPlace_click tracked_no_hit_test = tracked_no_hit_test
   \<and> canvas_click tracked_no_hit_test = tracked_no_hit_test
   \<and> placedPosition (onARSelect camera_level tracked_no_hit_test)
        = Some (Vector3 0 1.1 (- 1.5))"
proof -
  have h: "\<not> pipePlaced tracked_no_hit_test" "\<not> reticle_shown tracked_no_hit_test"
    "\<not> fallbackReticle_shown tracked_no_hit_test"
    by (simp_all add: tracked_no_hit_test_fields reticle_shown_def fallbackReticle_shown_def
          createARReticle_def newGroup_def)
  from commit_without_candidate [OF reachable_tracked_no_hit_test h, of camera_level]
  show ?thesis
    using reachable_tracked_no_hit_test h by (simp add: camera_level_def vadd_def placePipe_def)
qed

section \<open>Frames after a placement\<close>

text \<open>
  Claim C4 fails on the code. In fallback mode a canvas tap commits the placement, and
  the fallback reticle is still shown afterwards, also after the next frame:
  \<^verbatim>\<open>placePipe\<close> hides its label only.
\<close>

theorem reticle_hidden_counterexample:
  "pipePlaced (run [CanvasClick] fallback_ready)
   \<and> fallbackReticle_shown (run [CanvasClick] fallback_ready)
   \<and> fallbackReticle_shown (run [CanvasClick, Animate camera_level] fallback_ready)"
  by (simp add: fallback_ready_fields canvas_click_def placePipe_def animate_def
        fallbackReticle_shown_def createFallbackReticle_def newGroup_def)

lemma frame_placed: "pipePlaced s \<Longrightarrow> is_frame e \<Longrightarrow> handle e s = s"
  by (cases e) (simp_all add: onXRFrame_def animate_def split: option.splits)

lemma frames_placed: "pipePlaced s \<Longrightarrow> list_all is_frame es \<Longrightarrow> run es s = s"
  by (induction es) (simp_all add: frame_placed)

text \<open>
  Claim C4, amended. In every reachable state with a placement, any sequence of frame
  callbacks (fallback render loop or tracked frames, with any input) leaves the whole state
  unchanged, so neither reticle's pose or visibility is modified; the tracked reticle is
  not shown and the label of the fallback reticle is not shown.
\<close>

theorem frames_after_placement:
  assumes "reachable s" and "pipePlaced s" and "list_all is_frame frames"
  shows "run frames s = s \<and> \<not> reticle_shown s \<and> \<not> label_shown s"
proof -
  from assms(1) have "placement_inv s" by (rule reachable_inv)
  with assms(2) have "\<not> reticle_shown s \<and> \<not> label_shown s"
    by (simp add: placement_inv_def reticle_shown_def label_shown_def)
  with frames_placed [OF assms(2,3)] show ?thesis by simp
qed

theorem frames_after_placement_witness:
  "reachable (run [CanvasClick] fallback_ready) \<and> pipePlaced (run [CanvasClick] fallback_ready)
   \<and> list_all is_frame [Animate camera_level, XrFrame (Some [Some pose_ahead])]
   \<and> run [Animate camera_level, XrFrame (Some [Some pose_ahead])] (run [CanvasClick] fallback_ready)
        = run [CanvasClick] fallback_ready
   \<and> \<not> label_shown (run [CanvasClick] fallback_ready)"
proof -
  have r: "reachable (run [CanvasClick] fallback_ready)"
    by (rule reachable_run [OF reachable_fallback_ready])
  have p: "pipePlaced (run [CanvasClick] fallback_ready)"
    by (simp add: fallback_ready_fields canvas_click_def placePipe_def)
  have l: "list_all is_frame [Animate camera_level, XrFrame (Some [Some pose_ahead])]"
    by simp
  from frames_after_placement [OF r p l] r p l show ?thesis by simp
qed

section \<open>Ground projection\<close>

text \<open>
  Claim C5 fails on the code. For the camera pitched up with unit forward direction
  \<open>(0, 0.6, -0.8)\<close> the reticle is put at \<open>(0, 0, -2.4)\<close>, which is 2.4 m ahead of the
  camera, not 3 m.
\<close>

theorem level_or_up_counterexample:
  "- 0.01 \<le> vy (quaternion camera_pitched_up (Vector3 0 0 (- 1)))
   \<and> map_option position (fallbackReticle (updateFallbackReticle camera_pitched_up fallback_ready))
       = Some (Vector3 0 0 (- 2.4))
   \<and> horizontalDistance (Vector3 0 0 (- 2.4)) (cam_position camera_pitched_up) = 2.4"
proof -
  have "sqrt ((12 / 5)\<^sup>2) = (12 / 5 :: real)" by (rule real_sqrt_unique) simp_all
  then have "sqrt (144 / 25) = (12 / 5 :: real)" by (simp add: power2_eq_square)
  then show ?thesis
    by (simp add: fallback_ready_fields updateFallbackReticle_def camera_pitched_up_def
          horizontalDistance_def createFallbackReticle_def newGroup_def Let_def
          power2_eq_square)
qed

text \<open>
  Claim C5, amended. For a camera whose unit forward direction \<open>D\<close> has \<open>D.y \<ge> -0.01\<close>,
  the reticle is put at the camera's ground position advanced by \<open>3 * (D.x, D.z)\<close>, at
  height 0. Its horizontal distance from the camera is \<open>3 * sqrt (1 - D.y\<^sup>2)\<close>, which is
  at most 3 m, and 3 m exactly when \<open>D.y = 0\<close>.
\<close>

theorem level_or_up_projection:
  assumes "fallbackReticle s = Some f"
    and "quaternion cam (Vector3 0 0 (- 1)) = D"
    and "(vx D)\<^sup>2 + (vy D)\<^sup>2 + (vz D)\<^sup>2 = 1"
    and "- 0.01 \<le> vy D"
  shows "fallbackReticle (updateFallbackReticle cam s)
           = Some (f\<lparr>position := Vector3 (vx (cam_position cam) + vx D * 3) 0
                                          (vz (cam_position cam) + vz D * 3)\<rparr>)
       \<and> horizontalDistance (Vector3 (vx (cam_position cam) + vx D * 3) 0
                                      (vz (cam_position cam) + vz D * 3)) (cam_position cam)
           = 3 * sqrt (1 - (vy D)\<^sup>2)
       \<and> horizontalDistance (Vector3 (vx (cam_position cam) + vx D * 3) 0
                                      (vz (cam_position cam) + vz D * 3)) (cam_position cam)
           \<le> 3
       \<and> (horizontalDistance (Vector3 (vx (cam_position cam) + vx D * 3) 0
                                       (vz (cam_position cam) + vz D * 3)) (cam_position cam) = 3
            \<longleftrightarrow> vy D = 0)"
proof -
  have upd: "fallbackReticle (updateFallbackReticle cam s)
           = Some (f\<lparr>position := Vector3 (vx (cam_position cam) + vx D * 3) 0
                                          (vz (cam_position cam) + vz D * 3)\<rparr>)"
    using assms(1,2,4) by (simp add: updateFallbackReticle_def Let_def)
  have h: "(vx D)\<^sup>2 + (vz D)\<^sup>2 = 1 - (vy D)\<^sup>2" using assms(3) by simp
  have "horizontalDistance (Vector3 (vx (cam_position cam) + vx D * 3) 0
           (vz (cam_position cam) + vz D * 3)) (cam_position cam)
        = sqrt (3\<^sup>2 * ((vx D)\<^sup>2 + (vz D)\<^sup>2))"
    by (simp add: horizontalDistance_def power2_eq_square algebra_simps)
  also have "\<dots> = 3 * sqrt (1 - (vy D)\<^sup>2)"
    by (simp only: real_sqrt_mult h) simp
  finally have dist: "horizontalDistance (Vector3 (vx (cam_position cam) + vx D * 3) 0
           (vz (cam_position cam) + vz D * 3)) (cam_position cam) = 3 * sqrt (1 - (vy D)\<^sup>2)" .
  have "3 * sqrt (1 - (vy D)\<^sup>2) = 3 \<longleftrightarrow> vy D = 0"
  proof -
    have "3 * sqrt (1 - (vy D)\<^sup>2) = 3 \<longleftrightarrow> sqrt (1 - (vy D)\<^sup>2) = sqrt 1" by simp
    also have "\<dots> \<longleftrightarrow> 1 - (vy D)\<^sup>2 = 1" by (simp only: real_sqrt_eq_iff)
    also have "\<dots> \<longleftrightarrow> vy D = 0" by simp
    finally show ?thesis .
  qed
  moreover have "3 * sqrt (1 - (vy D)\<^sup>2) \<le> 3"
  proof -
    have "sqrt (1 - (vy D)\<^sup>2) \<le> sqrt 1" by (simp only: real_sqrt_le_iff) simp
    then show ?thesis by simp
  qed
  ultimately show ?thesis using upd dist by simp
qed

theorem level_or_up_projection_witness:
  "fallbackReticle fallback_ready = Some createFallbackReticle
   \<and> quaternion camera_pitched_up (Vector3 0 0 (- 1)) = Vector3 0 0.6 (- 0.8)
   \<and> (0::real)\<^sup>2 + 0.6\<^sup>2 + (- 0.8)\<^sup>2 = 1
   \<and> - 0.01 \<le> (0.6::real)
   \<and> fallbackReticle (updateFallbackReticle camera_pitched_up fallback_ready)
       = Some (createFallbackReticle\<lparr>position := Vector3 0 0 (- 2.4)\<rparr>)"
proof -
  have a: "fallbackReticle fallback_ready = Some createFallbackReticle"
    by (simp add: fallback_ready_fields)
  have b: "quaternion camera_pitched_up (Vector3 0 0 (- 1)) = Vector3 0 0.6 (- 0.8)"
    by (simp add: camera_pitched_up_def)
  have c: "(vx (Vector3 0 0.6 (- 0.8)))\<^sup>2 + (vy (Vector3 0 0.6 (- 0.8)))\<^sup>2
             + (vz (Vector3 0 0.6 (- 0.8)))\<^sup>2 = 1"
    by (simp add: power2_eq_square)
  have d: "- 0.01 \<le> vy (Vector3 0 0.6 (- 0.8))" by simp
  from level_or_up_projection [OF a b c d] a b show ?thesis
    by (simp add: camera_pitched_up_def power2_eq_square)
qed

text \<open>
  Claim C7. With the camera at \<open>P\<close> looking down (\<open>D.y < -0.01\<close>) and \<open>t = -P.y / D.y\<close>,
  \<^verbatim>\<open>updateFallbackReticle\<close> leaves the state, and so the reticle position, unchanged when
  the point \<open>P + D * t\<close> is 30 m or more from the camera, and moves the reticle to
  \<open>P + D * t\<close> when it is nearer than 30 m. A turn of the render loop is this routine
  whenever the reticle is visible and nothing is placed.
\<close>

theorem ground_projection_clamp:
  assumes "fallbackReticle s = Some f"
    and "quaternion cam (Vector3 0 0 (- 1)) = D" and "cam_position cam = P"
    and "vy D < - 0.01" and "t = - vy P / vy D"
  shows "(30 \<le> distanceTo (vadd P (multiplyScalar D t)) P \<longrightarrow>
            updateFallbackReticle cam s = s)
       \<and> (distanceTo (vadd P (multiplyScalar D t)) P < 30 \<longrightarrow>
            fallbackReticle (updateFallbackReticle cam s)
              = Some (f\<lparr>position := vadd P (multiplyScalar D t)\<rparr>))
       \<and> (visible f \<and> \<not> pipePlaced s \<longrightarrow>
            animate cam s = updateFallbackReticle cam s)"
proof -
  have an: "visible f \<and> \<not> pipePlaced s \<longrightarrow> animate cam s = updateFallbackReticle cam s"
    using assms(1) by (simp add: animate_def)
  from assms(4) have nz: "vy D \<noteq> 0" by auto
  have pt: "vadd P (multiplyScalar D t) = Vector3 (vx P + vx D * t) 0 (vz P + vz D * t)"
    using nz by (simp add: vadd_def multiplyScalar_def assms(5))
  have upd: "(30 \<le> distanceTo (Vector3 (vx P + vx D * t) 0 (vz P + vz D * t)) P \<longrightarrow>
            updateFallbackReticle cam s = s)
       \<and> (distanceTo (Vector3 (vx P + vx D * t) 0 (vz P + vz D * t)) P < 30 \<longrightarrow>
            fallbackReticle (updateFallbackReticle cam s)
              = Some (f\<lparr>position := Vector3 (vx P + vx D * t) 0 (vz P + vz D * t)\<rparr>))"
    using assms(1-4) by (simp add: updateFallbackReticle_def Let_def assms(5))
  from upd an show ?thesis by (simp only: pt) simp
qed

theorem ground_projection_clamp_witness:
  "distanceTo (vadd (Vector3 0 1.6 0) (multiplyScalar (Vector3 0 (- 0.8) (- 0.6)) 2))
       (Vector3 0 1.6 0) < 30
   \<and> fallbackReticle (updateFallbackReticle camera_pitched_down fallback_ready)
       = Some (createFallbackReticle\<lparr>position := Vector3 0 0 (- 1.2)\<rparr>)
   \<and> 30 \<le> distanceTo (vadd (Vector3 0 1.6 0)
              (multiplyScalar (Vector3 0 (- (51 / 1301)) (- (1300 / 1301))) (10408 / 255)))
              (Vector3 0 1.6 0)
   \<and> updateFallbackReticle camera_near_horizon fallback_ready = fallback_ready
   \<and> visible createFallbackReticle \<and> \<not> pipePlaced fallback_ready
   \<and> animate camera_near_horizon fallback_ready = fallback_ready"
proof -
  have f: "fallbackReticle fallback_ready = Some createFallbackReticle"
    by (simp add: fallback_ready_fields)
  have v: "visible createFallbackReticle \<and> \<not> pipePlaced fallback_ready"
    by (simp add: fallback_ready_fields createFallbackReticle_def newGroup_def)
  have near: "distanceTo (vadd (Vector3 0 1.6 0)
        (multiplyScalar (Vector3 0 (- 0.8) (- 0.6)) 2)) (Vector3 0 1.6 0) < 30"
    unfolding distanceTo_def
    by (rule real_less_lsqrt) (simp_all add: vadd_def multiplyScalar_def power2_eq_square)
  have far: "30 \<le> distanceTo (vadd (Vector3 0 1.6 0)
        (multiplyScalar (Vector3 0 (- (51 / 1301)) (- (1300 / 1301))) (10408 / 255)))
        (Vector3 0 1.6 0)"
    unfolding distanceTo_def
    by (rule real_le_rsqrt) (simp add: vadd_def multiplyScalar_def power2_eq_square)
  have d: "quaternion camera_pitched_down (Vector3 0 0 (- 1)) = Vector3 0 (- 0.8) (- 0.6)"
    "cam_position camera_pitched_down = Vector3 0 1.6 0"
    "vy (Vector3 0 (- 0.8) (- 0.6)) < - 0.01"
    "2 = - vy (Vector3 0 1.6 0) / vy (Vector3 0 (- 0.8) (- 0.6))"
    by (simp_all add: camera_pitched_down_def)
  have h: "quaternion camera_near_horizon (Vector3 0 0 (- 1))
             = Vector3 0 (- (51 / 1301)) (- (1300 / 1301))"
    "cam_position camera_near_horizon = Vector3 0 1.6 0"
    "vy (Vector3 0 (- (51 / 1301)) (- (1300 / 1301))) < - 0.01"
    "10408 / 255 = - vy (Vector3 0 1.6 0) / vy (Vector3 0 (- (51 / 1301)) (- (1300 / 1301)))"
    by (simp_all add: camera_near_horizon_def)
  have down: "fallbackReticle (updateFallbackReticle camera_pitched_down fallback_ready)
       = Some (createFallbackReticle\<lparr>position := Vector3 0 0 (- 1.2)\<rparr>)"
    using ground_projection_clamp [OF f d, THEN conjunct2, THEN conjunct1] near
    by (simp add: vadd_def multiplyScalar_def)
  have hor: "updateFallbackReticle camera_near_horizon fallback_ready = fallback_ready"
    using ground_projection_clamp [OF f h, THEN conjunct1] far by simp
  have "animate camera_near_horizon fallback_ready
          = updateFallbackReticle camera_near_horizon fallback_ready"
    using ground_projection_clamp [OF f h, THEN conjunct2, THEN conjunct2] v by simp
  with near far down hor v show ?thesis by simp
qed

section \<open>Double commit\<close>

lemma commit_result:
  "is_commit e \<Longrightarrow> handle e s = s \<or> (\<not> pipePlaced s \<and> (\<exists>pos. handle e s = placePipe pos s))"
  by (cases e)
     (auto simp: onARSelect_def btnPlace_click_def canvas_click_def split: option.splits)

lemma commit_placed: "is_commit e \<Longrightarrow> pipePlaced s \<Longrightarrow> handle e s = s"
  by (cases e) (simp_all add: onARSelect_def btnPlace_click_def canvas_click_def)

lemma placePipe_placed: "pipePlaced (placePipe pos s)"
  by (simp add: placePipe_def)

lemma placePipe_markers: "length (placedMarkers (placePipe pos s)) = length (placedMarkers s) + 1"
  by (simp add: placePipe_def)

lemma select_commits: "\<not> pipePlaced s \<Longrightarrow> pipePlaced (onARSelect cam s)"
  by (simp add: onARSelect_def placePipe_def split: option.splits)

lemma button_commits:
  "\<not> pipePlaced s \<Longrightarrow> fallbackMode s \<Longrightarrow> fallbackReticle s \<noteq> None \<Longrightarrow>
     pipePlaced (btnPlace_click s)"
  by (auto simp: btnPlace_click_def placePipe_def split: option.splits)

lemma tap_commits:
  "\<not> pipePlaced s \<Longrightarrow> fallbackMode s \<Longrightarrow> fallbackReticle s \<noteq> None \<Longrightarrow>
     useDeviceOrientation s \<or> \<not> wasDragged s \<Longrightarrow> pipePlaced (canvas_click s)"
  by (auto simp: canvas_click_def placePipe_def split: option.splits)

lemma placePipe_entry:
  "effectivePose (placePipe pos s) = Some (pos, 0)"
  "placedPosition (placePipe pos s) = Some pos"
  by (simp_all add: placePipe_def effectivePose_def newGroup_def)

text \<open>
  Claim C6 fails on the code where the commit is not valid. In the initial state the
  place button is ignored (fallback mode is off and there is no fallback reticle), so
  pressing it twice leaves the state as it was, with no placement at all.
\<close>

theorem double_commit_counterexample:
  "run [PlaceClick, PlaceClick] init = init
   \<and> \<not> pipePlaced (run [PlaceClick, PlaceClick] init)
   \<and> placedPosition (run [PlaceClick, PlaceClick] init) = None
   \<and> effectivePose (run [PlaceClick, PlaceClick] init) = None
   \<and> placedMarkers (run [PlaceClick, PlaceClick] init) = []"
proof -
  have "btnPlace_click init = init"
    by (simp add: btnPlace_click_def init_def)
  then have "run [PlaceClick, PlaceClick] init = init" by simp
  then show ?thesis by (simp add: init_def effectivePose_def)
qed

text \<open>
  Claim C6, amended. In every state, a commit input (tracked \<^verbatim>\<open>select\<close>, place button or
  canvas tap) given twice in succession has the effect of giving it once; once a placement
  exists, any further commit input changes nothing; and two commit inputs add at most one
  placement marker. When the first input takes effect, the two inputs together leave
  exactly one placement: the placed flag is set, the placed asset and the base position
  exist, and exactly one marker was added. When a placement existed before, the two inputs
  leave the state as it was. The first input takes effect whenever nothing is placed and it
  is the \<^verbatim>\<open>select\<close> input, or fallback mode is on with a fallback reticle and it is the
  place button or a canvas tap that was not a drag.
\<close>

theorem double_commit:
  assumes "is_commit e" and "is_commit e'"
  shows "handle e (handle e s) = handle e s
       \<and> (pipePlaced (handle e s) \<longrightarrow> handle e' (handle e s) = handle e s)
       \<and> length (placedMarkers (handle e' (handle e s))) \<le> length (placedMarkers s) + 1
       \<and> (handle e s \<noteq> s \<longrightarrow>
            pipePlaced (handle e' (handle e s))
            \<and> effectivePose (handle e' (handle e s)) \<noteq> None
            \<and> placedPosition (handle e' (handle e s)) \<noteq> None
            \<and> length (placedMarkers (handle e' (handle e s)))
                = length (placedMarkers s) + 1)
       \<and> (pipePlaced s \<longrightarrow> handle e' (handle e s) = s)
       \<and> (\<not> pipePlaced s \<longrightarrow> handle (ARSelect cam) s \<noteq> s)
       \<and> (\<not> pipePlaced s \<and> fallbackMode s \<and> fallbackReticle s \<noteq> None \<longrightarrow>
            handle PlaceClick s \<noteq> s)
       \<and> (\<not> pipePlaced s \<and> fallbackMode s \<and> fallbackReticle s \<noteq> None
            \<and> (useDeviceOrientation s \<or> \<not> wasDragged s) \<longrightarrow>
            handle CanvasClick s \<noteq> s)"
proof -
  have rep: "handle e (handle e s) = handle e s"
    using commit_result [OF assms(1), of s]
  proof
    assume "handle e s = s"
    then show ?thesis by simp
  next
    assume "\<not> pipePlaced s \<and> (\<exists>pos. handle e s = placePipe pos s)"
    then obtain pos where "handle e s = placePipe pos s" by blast
    then show ?thesis by (simp add: commit_placed [OF assms(1)] placePipe_placed)
  qed
  have len: "length (placedMarkers (handle e' (handle e s))) \<le> length (placedMarkers s) + 1"
    using commit_result [OF assms(1), of s]
  proof
    assume same: "handle e s = s"
    from commit_result [OF assms(2), of s] show ?thesis
      by (auto simp: same placePipe_markers)
  next
    assume "\<not> pipePlaced s \<and> (\<exists>pos. handle e s = placePipe pos s)"
    then obtain pos where "handle e s = placePipe pos s" by blast
    then show ?thesis
      by (simp add: commit_placed [OF assms(2)] placePipe_placed placePipe_markers)
  qed
  have one: "pipePlaced (handle e' (handle e s))
            \<and> effectivePose (handle e' (handle e s)) \<noteq> None
            \<and> placedPosition (handle e' (handle e s)) \<noteq> None
            \<and> length (placedMarkers (handle e' (handle e s)))
                = length (placedMarkers s) + 1"
    if changed: "handle e s \<noteq> s"
  proof -
    from commit_result [OF assms(1), of s] changed
    obtain pos where pos: "handle e s = placePipe pos s" by blast
    have "handle e' (handle e s) = placePipe pos s"
      by (simp add: pos commit_placed [OF assms(2)] placePipe_placed)
    then show ?thesis
      by (simp add: placePipe_placed placePipe_entry placePipe_markers)
  qed
  have kept: "handle e' (handle e s) = s" if "pipePlaced s"
    using that by (simp add: commit_placed [OF assms(1)] commit_placed [OF assms(2)])
  have sel: "handle (ARSelect cam) s \<noteq> s" if "\<not> pipePlaced s"
    using select_commits [OF that, of cam] that by auto
  have btn: "handle PlaceClick s \<noteq> s"
    if "\<not> pipePlaced s \<and> fallbackMode s \<and> fallbackReticle s \<noteq> None"
    using button_commits [of s] that by auto
  have tap: "handle CanvasClick s \<noteq> s"
    if "\<not> pipePlaced s \<and> fallbackMode s \<and> fallbackReticle s \<noteq> None
        \<and> (useDeviceOrientation s \<or> \<not> wasDragged s)"
    using tap_commits [of s] that by auto
  from rep len one kept sel btn tap show ?thesis
    by (simp add: commit_placed [OF assms(2)])
qed

theorem double_commit_witness:
  "is_commit CanvasClick \<and> is_commit PlaceClick
   \<and> \<not> pipePlaced fallback_ready \<and> fallbackMode fallback_ready
   \<and> fallbackReticle fallback_ready \<noteq> None \<and> \<not> wasDragged fallback_ready
   \<and> handle CanvasClick fallback_ready \<noteq> fallback_ready
   \<and> pipePlaced (handle CanvasClick fallback_ready)
   \<and> handle CanvasClick (handle CanvasClick fallback_ready) = handle CanvasClick fallback_ready
   \<and> handle PlaceClick (handle CanvasClick fallback_ready) = handle CanvasClick fallback_ready
   \<and> effectivePose (handle CanvasClick (handle CanvasClick fallback_ready))
       = Some (Vector3 0 0 (- 3), 0)
   \<and> length (placedMarkers (handle CanvasClick (handle CanvasClick fallback_ready))) = 1"
proof -
  have c: "\<not> pipePlaced fallback_ready \<and> fallbackMode fallback_ready
      \<and> fallbackReticle fallback_ready \<noteq> None \<and> \<not> wasDragged fallback_ready"
    by (simp add: fallback_ready_fields)
  have m: "placedMarkers fallback_ready = []"
    by (simp add: fallback_ready_def init_def startFallbackMode_def
        startCameraBackground_def animate_def updateFallbackReticle_def camera_level_def
        createFallbackReticle_def newGroup_def Let_def)
  have e: "handle CanvasClick fallback_ready = placePipe (Vector3 0 0 (- 3)) fallback_ready"
    by (simp add: fallback_ready_fields canvas_click_def createFallbackReticle_def
          newGroup_def)
  note d1 = double_commit [of CanvasClick PlaceClick fallback_ready camera_level]
  note d2 = double_commit [of CanvasClick CanvasClick fallback_ready camera_level]
  have ic: "is_commit CanvasClick" "is_commit PlaceClick" by simp_all
  from d2 [OF ic(1) ic(1)] c have ch: "handle CanvasClick fallback_ready \<noteq> fallback_ready"
    by blast
  from d2 [OF ic(1) ic(1)] ch
  have two: "handle CanvasClick (handle CanvasClick fallback_ready)
               = handle CanvasClick fallback_ready"
    and n: "length (placedMarkers (handle CanvasClick (handle CanvasClick fallback_ready)))
              = length (placedMarkers fallback_ready) + 1"
    by blast+
  from d2 [OF ic(1) ic(1)] ch two have p: "pipePlaced (handle CanvasClick fallback_ready)"
    by metis
  from d1 [OF ic(1) ic(2)] p
  have b: "handle PlaceClick (handle CanvasClick fallback_ready)
             = handle CanvasClick fallback_ready"
    by blast
  have "effectivePose (handle CanvasClick fallback_ready) = Some (Vector3 0 0 (- 3), 0)"
    by (simp only: e placePipe_entry)
  then have pose: "effectivePose (handle CanvasClick (handle CanvasClick fallback_ready))
       = Some (Vector3 0 0 (- 3), 0)"
    by (simp only: two)
  from ic c ch p two b pose n m show ?thesis by (simp del: handle.simps)
qed

section \<open>Reset\<close>

text \<open>
  Claim C8. Reset clears the placed flag, the stored base position, the placed asset and
  the markers. It issues no acquisition request and leaves camera stream, orientation
  mode, session, hit-test source and both render loops as they are. The fallback reticle is
  shown again, with its label; in a tracked session with hit testing the next frame with a
  hit shows the tracked reticle again.
\<close>

theorem reset_clears_placement:
  "\<not> pipePlaced (btnReset_click s)
   \<and> placedPosition (btnReset_click s) = None
   \<and> effectivePose (btnReset_click s) = None
   \<and> placedMarkers (btnReset_click s) = []
   \<and> requests (btnReset_click s) = requests s
   \<and> cameraVideo (btnReset_click s) = cameraVideo s
   \<and> useDeviceOrientation (btnReset_click s) = useDeviceOrientation s
   \<and> xrSession (btnReset_click s) = xrSession s
   \<and> hitTestSource (btnReset_click s) = hitTestSource s
   \<and> animationLoop (btnReset_click s) = animationLoop s
   \<and> fallbackMode (btnReset_click s) = fallbackMode s
   \<and> fallbackAnimateRunning (btnReset_click s) = fallbackAnimateRunning s
   \<and> fallbackControlsReady (btnReset_click s) = fallbackControlsReady s
   \<and> fallbackReticle_shown (btnReset_click s)
   \<and> label_shown (btnReset_click s)
   \<and> (hitTestSource s \<and> animationLoop s \<and> reticle s \<noteq> None \<longrightarrow>
        reticle_shown (handle (XrFrame (Some (Some pose # hits))) (btnReset_click s)))"
  by (cases "reticle s")
     (simp_all add: btnReset_click_def effectivePose_def fallbackReticle_shown_def
        label_shown_def reticle_shown_def onXRFrame_def createFallbackReticle_def newGroup_def)

theorem reset_clears_placement_witness:
  "hitTestSource tracked_placed \<and> animationLoop tracked_placed \<and> reticle tracked_placed \<noteq> None
   \<and> pipePlaced tracked_placed \<and> \<not> reticle_shown tracked_placed
   \<and> \<not> pipePlaced (btnReset_click tracked_placed)
   \<and> requests (btnReset_click tracked_placed) = [TrackedSession]
   \<and> reticle_shown (handle (XrFrame (Some [Some pose_ahead])) (btnReset_click tracked_placed))"
proof -
  have f: "hitTestSource tracked_placed \<and> animationLoop tracked_placed
      \<and> reticle tracked_placed \<noteq> None \<and> pipePlaced tracked_placed
      \<and> \<not> reticle_shown tracked_placed \<and> requests tracked_placed = [TrackedSession]"
    by (simp add: tracked_placed_def init_def startARSession_def onXRFrame_def onARSelect_def
          placePipe_def createARReticle_def newGroup_def reticle_shown_def Let_def)
  from reset_clears_placement [of tracked_placed pose_ahead "[]"] f
  show ?thesis by (simp del: handle.simps)
qed

section \<open>Forward offsets do not accumulate\<close>

text \<open>
  Claim C9 fails on the code in its sign convention. On the placement at the origin with
  yaw 0, the forward offset 500 puts the asset at \<open>z = -0.5\<close>: a positive offset moves it
  towards \<open>-Z\<close>, away from the camera.
\<close>

theorem positive_offset_counterexample:
  "placedPosition origin_placed = Some (Vector3 0 0 0)
   \<and> effectivePose origin_placed = Some (Vector3 0 0 0, 0)
   \<and> placed_z (distanceSlider_input 500 origin_placed) = Some (- 0.5)"
  by (simp add: origin_placed_fields effectivePose_def placed_z_def distanceSlider_input_def
        newGroup_def Let_def)

text \<open>
  Claim C9, amended. In every reachable state with a placement at base position \<open>base\<close>,
  the forward offset \<open>v\<close> puts the asset at \<open>z = base.z - v / 1000\<close>, so a positive offset
  moves it towards \<open>-Z\<close> and a negative one towards \<open>+Z\<close>; a second offset replaces the
  first, and 500 followed by -200 gives \<open>z = base.z + 0.2\<close>, that is 0.2 for the base
  position at the origin.
\<close>

theorem forward_offset_last_value:
  assumes "reachable s" and "pipePlaced s" and "placedPosition s = Some base"
  shows "placed_z (distanceSlider_input v s) = Some (vz base - v * 0.001)
       \<and> placed_z (distanceSlider_input v' (distanceSlider_input v s))
           = Some (vz base - v' * 0.001)
       \<and> placed_z (distanceSlider_input (- 200) (distanceSlider_input 500 s))
           = Some (vz base + 0.2)"
proof -
  from assms(1) have "placement_inv s" by (rule reachable_inv)
  with assms(2) obtain g where g: "pipeGroup s = Some g"
    by (auto simp: placement_inv_def)
  show ?thesis
    using assms(3) g by (simp add: placed_z_def distanceSlider_input_def Let_def)
qed

theorem forward_offset_last_value_witness:
  "reachable origin_placed \<and> pipePlaced origin_placed
   \<and> placedPosition origin_placed = Some (Vector3 0 0 0)
   \<and> placed_z (distanceSlider_input (- 200) (distanceSlider_input 500 origin_placed))
       = Some 0.2
   \<and> placed_z (distanceSlider_input 500 origin_placed) = Some (- 0.5)"
  using forward_offset_last_value [OF reachable_origin_placed, of "Vector3 0 0 0" 500 "- 200"]
    reachable_origin_placed
  by (simp add: origin_placed_fields)

section \<open>Camera stream\<close>

lemma camera_kept:
  "cameraVideo s \<Longrightarrow>
     cameraVideo (handle e s)
     \<and> count_list (requests (handle e s)) CameraStream = count_list (requests s) CameraStream"
  by (cases e)
     (auto simp: startARSession_def xrSession_end_def onXRFrame_def onARSelect_def
        startFallbackMode_def animate_def updateFallbackReticle_def btnPlace_click_def
        canvas_click_def btnReset_click_def rotationSlider_input_def distanceSlider_input_def
        setAR3DModel_def loadARPipeData_def btnExcavation_click_def rebuildExcavation_def
        btnPipeInfo_click_def pointerdown_def pointermove_def pointerup_def
        activateDeviceOrientation_def btnGyroPermission_click_def placePipe_def
        autoPlaceAtDefaultPosition_def startCameraBackground_def Let_def
        split: option.splits list.splits ar_outcome.splits)

lemma camera_kept_run:
  "cameraVideo s \<Longrightarrow>
     cameraVideo (run es s)
     \<and> count_list (requests (run es s)) CameraStream = count_list (requests s) CameraStream"
  by (induction es arbitrary: s) (simp_all add: camera_kept)

text \<open>
  Claim C10. A granted camera request sets \<open>cameraVideo\<close>. From any state with
  \<open>cameraVideo\<close> set, \<^verbatim>\<open>startCameraBackground\<close> returns the state unchanged, and after any
  sequence of events (hand-offs included) \<open>cameraVideo\<close> is still set, the log holds no
  further camera request, and the routine still returns at once.
\<close>

theorem camera_stream_acquired_once:
  assumes "cameraVideo s"
  shows "startCameraBackground outcome s = s
       \<and> cameraVideo (run es s)
       \<and> count_list (requests (run es s)) CameraStream = count_list (requests s) CameraStream
       \<and> startCameraBackground outcome (run es s) = run es s
       \<and> cameraVideo (startCameraBackground (CamGranted played) s')"
proof -
  from camera_kept_run [OF assms, of es]
  have kept: "cameraVideo (run es s)"
    and cnt: "count_list (requests (run es s)) CameraStream
                = count_list (requests s) CameraStream"
    by simp_all
  have skip: "\<And>u. cameraVideo u \<Longrightarrow> startCameraBackground outcome u = u"
    by (simp add: startCameraBackground_def)
  have granted: "cameraVideo (startCameraBackground (CamGranted played) s')"
    by (simp add: startCameraBackground_def Let_def)
  from skip [OF assms] skip [OF kept] kept cnt granted show ?thesis by simp
qed

theorem camera_stream_acquired_once_witness:
  "cameraVideo camera_running
   \<and> requests camera_running = [CameraStream]
   \<and> startCameraBackground (CamGranted True) camera_running = camera_running
   \<and> count_list (requests (run [StartARSession (Started True),
                                 XrSessionEnd (CamGranted True) camera_level,
                                 StartFallbackMode CamDenied camera_level,
                                 ResetClick] camera_running)) CameraStream = 1"
proof -
  have f: "cameraVideo camera_running" "requests camera_running = [CameraStream]"
    by (simp_all add: camera_running_def init_def startFallbackMode_def
          startCameraBackground_def animate_def updateFallbackReticle_def camera_level_def
          createFallbackReticle_def newGroup_def Let_def)
  from camera_stream_acquired_once [OF f(1), of "CamGranted True"
      "[StartARSession (Started True), XrSessionEnd (CamGranted True) camera_level,
        StartFallbackMode CamDenied camera_level, ResetClick]"] f
  show ?thesis by (simp del: run.simps)
qed

end
